theory Spec2Isabelle
  imports Main "HOL-Library.Sublist"
begin

section \<open>The engine server of \<^verbatim>\<open>mistral/engine/engine_server.py\<close>\<close>

text \<open>
  \<^verbatim>\<open>EngineServer\<close> owns three handles (scheduler, expiration policy thread group,
  RPC server), brings them up in \<^verbatim>\<open>start\<close>, releases them in \<^verbatim>\<open>stop\<close>, and exposes
  eight RPC methods, each of which writes one log record and calls one method of
  \<^verbatim>\<open>self.engine\<close>.

  Everything the class does is a call to a collaborator. A method is therefore modelled
  as a function from the server's fields to an outcome, the updated fields and the list of
  collaborator calls it made, in order. A collaborator either returns or raises; what it
  answers is a parameter of the model.
\<close>

subsection \<open>Values, faults and observable calls\<close>

text \<open>
  The Python values that travel through the RPC methods. \<open>PDict\<close> is a \<^verbatim>\<open>dict\<close> with
  string keys in insertion order. \<open>PResult d e\<close> is an instance of \<^verbatim>\<open>wf_utils.Result\<close>
  holding the data \<open>d\<close> and the error \<open>e\<close>.
\<close>

datatype pyval =
    PNone
  | PBool bool
  | PInt int
  | PStr string
  | PDict "(string \<times> pyval) list"
  | PResult pyval pyval

text \<open>An exception, identified by the name of its class.\<close>

datatype fault = Fault string

text \<open>An object returned by a collaborator and kept in a field (an ordinary, truthy object).\<close>

type_synonym handle = nat

text \<open>
  One constructor per call site of the source. \<open>LogInfo fmt vals\<close> is
  \<^verbatim>\<open>LOG.info(fmt % vals)\<close>: the format string as written and the tuple interpolated
  into it. \<open>EngineCall name args kwargs\<close> is \<^verbatim>\<open>self.engine.name(*args, **kwargs)\<close>.
\<close>

datatype event =
    LogInfo string "pyval list"
  | EngineCall string "pyval list" "(string \<times> pyval) list"
  | BaseStart
  | SetupDb
  | SchedulerStart
  | ExpirationSetup
  | ProfilerSetup string string
  | GetRpcServerDriver
  | NewRpcServer
  | RegisterEndpoint handle
  | Run handle string
  | NotifyStarted string
  | BaseStop bool
  | StopScheduler handle bool
  | ExpirationStop handle bool
  | RpcStop handle bool

text \<open>
  The fields of \<^verbatim>\<open>EngineServer\<close> besides \<^verbatim>\<open>engine\<close> (source names without the
  leading underscore). \<open>None\<close> is Python's \<^verbatim>\<open>None\<close>.
\<close>

record server =
  setup_profiler :: bool
  rpc_server :: "handle option"
  scheduler :: "handle option"
  expiration_policy_tg :: "handle option"

text \<open>\<^verbatim>\<open>__init__(self, engine, setup_profiler=True)\<close>: an omitted flag is \<open>None\<close>.\<close>

definition init :: "bool option \<Rightarrow> server" where
  "init setup_profiler_arg =
     \<lparr>setup_profiler = (case setup_profiler_arg of None \<Rightarrow> True | Some b \<Rightarrow> b),
      rpc_server = None,
      scheduler = None,
      expiration_policy_tg = None\<rparr>"

text \<open>
  What each collaborator of the life cycle answers when called: \<open>Inl\<close> the exception it
  raises, \<open>Inr\<close> the value it returns. \<open>base_start\<close>, \<open>base_stop\<close> and
  \<open>notify_started\<close> are the methods of the base class \<^verbatim>\<open>MistralService\<close>;
  \<open>get_rpc_server_driver\<close> and \<open>new_rpc_server\<close> are the two calls of
  \<^verbatim>\<open>rpc.get_rpc_server_driver()(cfg.CONF.engine)\<close>.
\<close>

record collaborators =
  base_start :: "fault + unit"
  setup_db :: "fault + unit"
  scheduler_start :: "fault + handle"
  expiration_setup :: "fault + handle"
  conf_engine_host :: string
  profiler_setup :: "string \<Rightarrow> string \<Rightarrow> fault + unit"
  get_rpc_server_driver :: "fault + unit"
  new_rpc_server :: "fault + handle"
  register_endpoint :: "handle \<Rightarrow> fault + unit"
  run :: "handle \<Rightarrow> string \<Rightarrow> fault + unit"
  notify_started :: "string \<Rightarrow> fault + unit"
  base_stop :: "bool \<Rightarrow> fault + unit"
  stop_scheduler :: "handle \<Rightarrow> bool \<Rightarrow> fault + unit"
  tg_stop :: "handle \<Rightarrow> bool \<Rightarrow> fault + unit"
  rpc_stop :: "handle \<Rightarrow> bool \<Rightarrow> fault + unit"

text \<open>\<^verbatim>\<open>self.engine\<close>: what the engine answers to a call, given as an \<open>EngineCall\<close>.\<close>

type_synonym engine = "event \<Rightarrow> fault + pyval"

subsection \<open>Sequencing\<close>

text \<open>
  A method body is a sequence of statements; an exception ends it. \<open>andthen m k\<close> runs
  \<open>m\<close>, stops there if it raised, and otherwise runs \<open>k\<close> on its value.
\<close>

type_synonym 'a run = "server \<Rightarrow> (fault + 'a) \<times> server \<times> event list"

definition ret :: "'a \<Rightarrow> 'a run" where
  "ret a s = (Inr a, s, [])"

definition andthen :: "'a run \<Rightarrow> ('a \<Rightarrow> 'b run) \<Rightarrow> 'b run" where
  "andthen m k s =
     (case m s of
        (Inl f, s1, es) \<Rightarrow> (Inl f, s1, es)
      | (Inr a, s1, es) \<Rightarrow> (case k a s1 of (r, s2, es') \<Rightarrow> (r, s2, es @ es')))"

text \<open>A call to a collaborator: it is recorded, and its answer is the outcome.\<close>

definition ext :: "event \<Rightarrow> fault + 'a \<Rightarrow> 'a run" where
  "ext ev answer s = (answer, s, [ev])"

definition outcome :: "(fault + 'a) \<times> server \<times> event list \<Rightarrow> fault + 'a" where
  "outcome r = fst r"

definition after :: "(fault + 'a) \<times> server \<times> event list \<Rightarrow> server" where
  "after r = fst (snd r)"

definition calls :: "(fault + 'a) \<times> server \<times> event list \<Rightarrow> event list" where
  "calls r = snd (snd r)"

subsection \<open>Life cycle: \<^verbatim>\<open>start\<close> and \<open>stop\<close>\<close>

definition start :: "collaborators \<Rightarrow> unit run" where
  "start env =
     andthen (ext BaseStart (base_start env)) (\<lambda>_.
     andthen (ext SetupDb (setup_db env)) (\<lambda>_.
     andthen (ext SchedulerStart (scheduler_start env)) (\<lambda>h.
     andthen (\<lambda>s. ret () (s\<lparr>scheduler := Some h\<rparr>)) (\<lambda>_.
     andthen (ext ExpirationSetup (expiration_setup env)) (\<lambda>tg.
     andthen (\<lambda>s. ret () (s\<lparr>expiration_policy_tg := Some tg\<rparr>)) (\<lambda>_.
     andthen (\<lambda>s. if setup_profiler s
                   then ext (ProfilerSetup ''mistral-engine'' (conf_engine_host env))
                            (profiler_setup env ''mistral-engine'' (conf_engine_host env)) s
                   else ret () s) (\<lambda>_.
     andthen (ext GetRpcServerDriver (get_rpc_server_driver env)) (\<lambda>_.
     andthen (ext NewRpcServer (new_rpc_server env)) (\<lambda>r.
     andthen (\<lambda>s. ret () (s\<lparr>rpc_server := Some r\<rparr>)) (\<lambda>_.
     andthen (ext (RegisterEndpoint r) (register_endpoint env r)) (\<lambda>_.
     andthen (ext (Run r ''blocking'') (run env r ''blocking'')) (\<lambda>_.
     ext (NotifyStarted ''Engine server started.'')
         (notify_started env ''Engine server started.'')))))))))))))"

text \<open>\<^verbatim>\<open>stop(self, graceful=False)\<close>: an omitted argument is \<open>None\<close>.\<close>

definition stop :: "collaborators \<Rightarrow> bool option \<Rightarrow> unit run" where
  "stop env graceful_arg =
     (let graceful = (case graceful_arg of None \<Rightarrow> False | Some g \<Rightarrow> g) in
      andthen (ext (BaseStop graceful) (base_stop env graceful)) (\<lambda>_.
      andthen (\<lambda>s. case scheduler s of
                      None \<Rightarrow> ret () s
                    | Some h \<Rightarrow> ext (StopScheduler h graceful) (stop_scheduler env h graceful) s) (\<lambda>_.
      andthen (\<lambda>s. case expiration_policy_tg s of
                      None \<Rightarrow> ret () s
                    | Some tg \<Rightarrow> ext (ExpirationStop tg graceful) (tg_stop env tg graceful) s) (\<lambda>_.
      (\<lambda>s. case rpc_server s of
              None \<Rightarrow> ret () s
            | Some r \<Rightarrow> ext (RpcStop r graceful) (rpc_stop env r graceful) s)))))"

text \<open>The \<^verbatim>\<open>graceful\<close> argument a stop call was made with, if the call is one.\<close>

fun graceful_of :: "event \<Rightarrow> bool option" where
  "graceful_of (BaseStop g) = Some g"
| "graceful_of (StopScheduler h g) = Some g"
| "graceful_of (ExpirationStop h g) = Some g"
| "graceful_of (RpcStop h g) = Some g"
| "graceful_of _ = None"

text \<open>Collaborators that all return: the handles 1, 2, 3 and \<^verbatim>\<open>None\<close> elsewhere.\<close>

definition all_fine :: collaborators where
  "all_fine =
     \<lparr>base_start = Inr (), setup_db = Inr (),
      scheduler_start = Inr 1, expiration_setup = Inr 2,
      conf_engine_host = ''0.0.0.0'',
      profiler_setup = (\<lambda>_ _. Inr ()),
      get_rpc_server_driver = Inr (), new_rpc_server = Inr 3,
      register_endpoint = (\<lambda>_. Inr ()), run = (\<lambda>_ _. Inr ()),
      notify_started = (\<lambda>_. Inr ()),
      base_stop = (\<lambda>_. Inr ()), stop_scheduler = (\<lambda>_ _. Inr ()),
      tg_stop = (\<lambda>_ _. Inr ()), rpc_stop = (\<lambda>_ _. Inr ())\<rparr>"

text \<open>A server on which \<^verbatim>\<open>start\<close> has assigned every handle.\<close>

definition started :: server where
  "started = \<lparr>setup_profiler = True, rpc_server = Some 3, scheduler = Some 1,
              expiration_policy_tg = Some 2\<rparr>"

subsection \<open>The RPC methods\<close>

text \<open>\<^verbatim>\<open>LOG.info(fmt % vals)\<close> returns \<^verbatim>\<open>None\<close>.\<close>

definition log_info :: "string \<Rightarrow> pyval list \<Rightarrow> unit run" where
  "log_info fmt vals = ext (LogInfo fmt vals) (Inr ())"

text \<open>\<^verbatim>\<open>self.engine.name(*args, **kwargs)\<close>: the engine's answer is the outcome.\<close>

definition engine_call ::
  "engine \<Rightarrow> string \<Rightarrow> pyval list \<Rightarrow> (string \<times> pyval) list \<Rightarrow> pyval run" where
  "engine_call eng name args kwargs =
     ext (EngineCall name args kwargs) (eng (EngineCall name args kwargs))"

text \<open>
  The format strings of the eight log records, each the concatenation of the adjacent
  literals of the source.
\<close>

definition fmt_start_workflow :: string where
  "fmt_start_workflow =
     ''Received RPC request 'start_workflow'[rpc_ctx=%s,'' @
     '' workflow_identifier=%s, workflow_input=%s, description=%s, '' @
     ''params=%s]''"

definition fmt_start_action :: string where
  "fmt_start_action =
     ''Received RPC request 'start_action'[rpc_ctx=%s,'' @
     '' name=%s, input=%s, description=%s, params=%s]''"

definition fmt_on_action_complete :: string where
  "fmt_on_action_complete =
     ''Received RPC request 'on_action_complete'[rpc_ctx=%s,'' @
     '' action_ex_id=%s, result=%s]''"

definition fmt_pause_workflow :: string where
  "fmt_pause_workflow =
     ''Received RPC request 'pause_workflow'[rpc_ctx=%s,'' @
     '' execution_id=%s]''"

definition fmt_rerun_workflow :: string where
  "fmt_rerun_workflow =
     ''Received RPC request 'rerun_workflow'[rpc_ctx=%s, '' @
     ''task_ex_id=%s]''"

definition fmt_resume_workflow :: string where
  "fmt_resume_workflow =
     ''Received RPC request 'resume_workflow'[rpc_ctx=%s, '' @
     ''wf_ex_id=%s]''"

definition fmt_stop_workflow :: string where
  "fmt_stop_workflow =
     ''Received RPC request 'stop_workflow'[rpc_ctx=%s, execution_id=%s,'' @
     '' state=%s, message=%s]''"

definition fmt_rollback_workflow :: string where
  "fmt_rollback_workflow =
     ''Received RPC request 'rollback_workflow'[rpc_ctx=%s,'' @
     '' execution_id=%s]''"

text \<open>
  \<^verbatim>\<open>params\<close> is a mapping with string keys; \<^verbatim>\<open>**params\<close> passes its entries as
  keyword arguments.
\<close>

definition start_workflow ::
  "engine \<Rightarrow> pyval \<Rightarrow> pyval \<Rightarrow> pyval \<Rightarrow> pyval \<Rightarrow> (string \<times> pyval) list \<Rightarrow> pyval run" where
  "start_workflow eng rpc_ctx workflow_identifier workflow_input description params =
     andthen (log_info fmt_start_workflow
                [rpc_ctx, workflow_identifier, workflow_input, description, PDict params]) (\<lambda>_.
     engine_call eng ''start_workflow''
       [workflow_identifier, workflow_input, description] params)"

definition start_action ::
  "engine \<Rightarrow> pyval \<Rightarrow> pyval \<Rightarrow> pyval \<Rightarrow> pyval \<Rightarrow> (string \<times> pyval) list \<Rightarrow> pyval run" where
  "start_action eng rpc_ctx action_name action_input description params =
     andthen (log_info fmt_start_action
                [rpc_ctx, action_name, action_input, description, PDict params]) (\<lambda>_.
     engine_call eng ''start_action'' [action_name, action_input, description] params)"

text \<open>
  \<^verbatim>\<open>wf_utils.Result\<close> is imported, so the constructor is the parameter \<open>Result_cls\<close>; an
  exception it raises leaves the method before the log record. The decorator
  \<^verbatim>\<open>profiler.trace\<close> (of the osprofiler library) surrounds the call with trace points and
  hands arguments and result through; it is left out.
\<close>

definition on_action_complete ::
  "(pyval \<Rightarrow> pyval \<Rightarrow> fault + pyval) \<Rightarrow> engine \<Rightarrow>
   pyval \<Rightarrow> pyval \<Rightarrow> pyval \<Rightarrow> pyval \<Rightarrow> pyval \<Rightarrow> pyval run" where
  "on_action_complete Result_cls eng rpc_ctx action_ex_id result_data result_error wf_action =
     andthen (\<lambda>s. (Result_cls result_data result_error, s, [])) (\<lambda>result.
     andthen (log_info fmt_on_action_complete [rpc_ctx, action_ex_id, result]) (\<lambda>_.
     engine_call eng ''on_action_complete'' [action_ex_id, result, wf_action] []))"

definition pause_workflow :: "engine \<Rightarrow> pyval \<Rightarrow> pyval \<Rightarrow> pyval run" where
  "pause_workflow eng rpc_ctx execution_id =
     andthen (log_info fmt_pause_workflow [rpc_ctx, execution_id]) (\<lambda>_.
     engine_call eng ''pause_workflow'' [execution_id] [])"

text \<open>
  \<^verbatim>\<open>rerun_workflow(self, rpc_ctx, task_ex_id, reset=True, env=None)\<close>: an omitted
  argument is \<open>None\<close> and takes its default.
\<close>

definition rerun_workflow ::
  "engine \<Rightarrow> pyval \<Rightarrow> pyval \<Rightarrow> pyval option \<Rightarrow> pyval option \<Rightarrow> pyval run" where
  "rerun_workflow eng rpc_ctx task_ex_id reset_arg env_arg =
     (let reset = (case reset_arg of None \<Rightarrow> PBool True | Some v \<Rightarrow> v);
          env = (case env_arg of None \<Rightarrow> PNone | Some v \<Rightarrow> v) in
      andthen (log_info fmt_rerun_workflow [rpc_ctx, task_ex_id]) (\<lambda>_.
      engine_call eng ''rerun_workflow'' [task_ex_id, reset, env] []))"

definition resume_workflow ::
  "engine \<Rightarrow> pyval \<Rightarrow> pyval \<Rightarrow> pyval option \<Rightarrow> pyval run" where
  "resume_workflow eng rpc_ctx wf_ex_id env_arg =
     (let env = (case env_arg of None \<Rightarrow> PNone | Some v \<Rightarrow> v) in
      andthen (log_info fmt_resume_workflow [rpc_ctx, wf_ex_id]) (\<lambda>_.
      engine_call eng ''resume_workflow'' [wf_ex_id, env] []))"

definition stop_workflow ::
  "engine \<Rightarrow> pyval \<Rightarrow> pyval \<Rightarrow> pyval \<Rightarrow> pyval option \<Rightarrow> pyval run" where
  "stop_workflow eng rpc_ctx execution_id state message_arg =
     (let message = (case message_arg of None \<Rightarrow> PNone | Some v \<Rightarrow> v) in
      andthen (log_info fmt_stop_workflow [rpc_ctx, execution_id, state, message]) (\<lambda>_.
      engine_call eng ''stop_workflow'' [execution_id, state, message] []))"

definition rollback_workflow :: "engine \<Rightarrow> pyval \<Rightarrow> pyval \<Rightarrow> pyval run" where
  "rollback_workflow eng rpc_ctx execution_id =
     andthen (log_info fmt_rollback_workflow [rpc_ctx, execution_id]) (\<lambda>_.
     engine_call eng ''rollback_workflow'' [execution_id] [])"

text \<open>\<^verbatim>\<open>get_oslo_service(setup_profiler=True)\<close> builds the server around a default engine.\<close>

definition get_oslo_service :: "bool option \<Rightarrow> server" where
  "get_oslo_service setup_profiler_arg =
     init (Some (case setup_profiler_arg of None \<Rightarrow> True | Some b \<Rightarrow> b))"

subsection \<open>The completion result\<close>

text \<open>
  Modelled from the spec: the class \<^verbatim>\<open>wf_utils.Result\<close> (the spec's CompletionResult
  and its \<^verbatim>\<open>make_result(data, error)\<close>) is imported by the source and not part of it.
  The spec pairs success data with failure data, takes the inputs as they are when at most
  one is populated, and leaves the case of both populated to a policy: either the
  construction fails with InvalidResultError (\<open>exclusive\<close>), or the error takes
  precedence. A value is populated when it is not \<^verbatim>\<open>None\<close>.
\<close>

definition Result :: "bool \<Rightarrow> pyval \<Rightarrow> pyval \<Rightarrow> fault + pyval" where
  "Result exclusive data error =
     (if data \<noteq> PNone \<and> error \<noteq> PNone
      then (if exclusive then Inl (Fault ''InvalidResultError'')
            else Inr (PResult PNone error))
      else Inr (PResult data error))"

fun data_of :: "pyval \<Rightarrow> pyval" where
  "data_of (PResult d e) = d"
| "data_of _ = PNone"

fun error_of :: "pyval \<Rightarrow> pyval" where
  "error_of (PResult d e) = e"
| "error_of _ = PNone"

datatype execution_state = RUNNING | PAUSED | SUCCESS | ERROR | CANCELLED

text \<open>
  Modelled from the spec: the state an action execution takes when a completion result is
  reported is the engine's to compute; the spec derives it from whether the result carries
  an error, a result without error being a success even when its data is empty.
\<close>

definition completion_state :: "pyval \<Rightarrow> execution_state" where
  "completion_state result = (if error_of result \<noteq> PNone then ERROR else SUCCESS)"

subsection \<open>Vocabulary of the properties\<close>

text \<open>The subsystems of the life cycle, and the call that brings up or releases each.\<close>

datatype subsystem = Store | Scheduler | ExpirationSweep | RpcServer

fun brought_up :: "event \<Rightarrow> subsystem option" where
  "brought_up SetupDb = Some Store"
| "brought_up SchedulerStart = Some Scheduler"
| "brought_up ExpirationSetup = Some ExpirationSweep"
| "brought_up NewRpcServer = Some RpcServer"
| "brought_up _ = None"

fun released :: "event \<Rightarrow> subsystem option" where
  "released (StopScheduler h g) = Some Scheduler"
| "released (ExpirationStop h g) = Some ExpirationSweep"
| "released (RpcStop h g) = Some RpcServer"
| "released _ = None"

definition startup_order :: "event list \<Rightarrow> subsystem list" where
  "startup_order es = List.map_filter brought_up es"

definition teardown_order :: "event list \<Rightarrow> subsystem list" where
  "teardown_order es = List.map_filter released es"

text \<open>The position of a call in the body of \<^verbatim>\<open>start\<close> (0 for a call \<open>start\<close> never makes).\<close>

fun start_step :: "event \<Rightarrow> nat" where
  "start_step BaseStart = 1"
| "start_step SetupDb = 2"
| "start_step SchedulerStart = 3"
| "start_step ExpirationSetup = 4"
| "start_step (ProfilerSetup n h) = 5"
| "start_step GetRpcServerDriver = 6"
| "start_step NewRpcServer = 7"
| "start_step (RegisterEndpoint r) = 8"
| "start_step (Run r ex) = 9"
| "start_step (NotifyStarted m) = 10"
| "start_step _ = 0"

text \<open>The engine calls among the calls made.\<close>

fun is_engine_call :: "event \<Rightarrow> bool" where
  "is_engine_call (EngineCall n a k) = True"
| "is_engine_call _ = False"

definition engine_calls :: "event list \<Rightarrow> event list" where
  "engine_calls es = filter is_engine_call es"

text \<open>An engine that answers every call with \<^verbatim>\<open>None\<close>.\<close>

definition quiet_engine :: engine where
  "quiet_engine c = Inr PNone"

text \<open>
  A run forwards the engine call \<open>c\<close>: \<open>c\<close> is the one engine call made, the engine's
  answer to it is the outcome, and the server's fields are as before.
\<close>

definition forwards ::
  "(fault + pyval) \<times> server \<times> event list \<Rightarrow> engine \<Rightarrow> server \<Rightarrow> event \<Rightarrow> bool" where
  "forwards r eng s c =
     (outcome r = eng c \<and> engine_calls (calls r) = [c] \<and> after r = s)"

text \<open>
  A run that writes one log record and then makes one engine call: the record's format
  string and values, and the engine method's name.
\<close>

fun log_then_call :: "event list \<Rightarrow> (string \<times> pyval list \<times> string) option" where
  "log_then_call [LogInfo fmt vals, EngineCall name a k] = Some (fmt, vals, name)"
| "log_then_call _ = None"

text \<open>The values written to the log.\<close>

fun logged :: "event list \<Rightarrow> pyval list" where
  "logged [] = []"
| "logged (LogInfo fmt vals # es) = vals @ logged es"
| "logged (e # es) = logged es"

text \<open>A result constructor that stores its two arguments and never raises.\<close>

definition store_result :: "pyval \<Rightarrow> pyval \<Rightarrow> fault + pyval" where
  "store_result data error = Inr (PResult data error)"

text \<open>
  Every collaborator call of \<^verbatim>\<open>start\<close> before the notification returns, with the
  handles \<open>h\<close>, \<open>tg\<close> and \<open>r\<close>.
\<close>

definition start_steps_return ::
  "collaborators \<Rightarrow> server \<Rightarrow> handle \<Rightarrow> handle \<Rightarrow> handle \<Rightarrow> bool" where
  "start_steps_return env s h tg r =
     (base_start env = Inr () \<and> setup_db env = Inr () \<and>
      scheduler_start env = Inr h \<and> expiration_setup env = Inr tg \<and>
      (if setup_profiler s
       then profiler_setup env ''mistral-engine'' (conf_engine_host env) = Inr ()
       else True) \<and>
      get_rpc_server_driver env = Inr () \<and> new_rpc_server env = Inr r \<and>
      register_endpoint env r = Inr () \<and> run env r ''blocking'' = Inr ())"

text \<open>The calls of a \<^verbatim>\<open>start\<close> that runs to its end.\<close>

definition full_start :: "collaborators \<Rightarrow> server \<Rightarrow> handle \<Rightarrow> event list" where
  "full_start env s r =
     [BaseStart, SetupDb, SchedulerStart, ExpirationSetup] @
     (if setup_profiler s
      then [ProfilerSetup ''mistral-engine'' (conf_engine_host env)] else []) @
     [GetRpcServerDriver, NewRpcServer, RegisterEndpoint r, Run r ''blocking'',
      NotifyStarted ''Engine server started.'']"

text \<open>The stop calls due on a server: one for each handle that is assigned, in this order.\<close>

definition stops_due :: "server \<Rightarrow> bool \<Rightarrow> event list" where
  "stops_due s g =
     (case scheduler s of None \<Rightarrow> [] | Some h \<Rightarrow> [StopScheduler h g]) @
     (case expiration_policy_tg s of None \<Rightarrow> [] | Some tg \<Rightarrow> [ExpirationStop tg g]) @
     (case rpc_server s of None \<Rightarrow> [] | Some r \<Rightarrow> [RpcStop r g])"

text \<open>The base class's stop and the stop of every assigned handle return.\<close>

definition stops_return :: "collaborators \<Rightarrow> server \<Rightarrow> bool \<Rightarrow> bool" where
  "stops_return env s g =
     (base_stop env g = Inr () \<and>
      (case scheduler s of None \<Rightarrow> True | Some h \<Rightarrow> stop_scheduler env h g = Inr ()) \<and>
      (case expiration_policy_tg s of None \<Rightarrow> True | Some tg \<Rightarrow> tg_stop env tg g = Inr ()) \<and>
      (case rpc_server s of None \<Rightarrow> True | Some r \<Rightarrow> rpc_stop env r g = Inr ()))"

text \<open>A server whose \<^verbatim>\<open>start\<close> got as far as the scheduler and no further.\<close>

definition half_started :: server where
  "half_started = \<lparr>setup_profiler = True, rpc_server = None, scheduler = Some 1,
                   expiration_policy_tg = None\<rparr>"

text \<open>Collaborators of which the expiration policy setup raises and all others return.\<close>

definition expiration_fails :: collaborators where
  "expiration_fails = all_fine\<lparr>expiration_setup := Inl (Fault ''SetupError'')\<rparr>"

text \<open>Collaborators of which the profiler setup raises and all others return.\<close>

definition profiler_fails :: collaborators where
  "profiler_fails = all_fine\<lparr>profiler_setup := (\<lambda>_ _. Inl (Fault ''ProfilerError''))\<rparr>"

text \<open>An engine that raises on every call.\<close>

definition failing_engine :: engine where
  "failing_engine c = Inl (Fault ''EngineFault'')"

text \<open>What the collaborators answer to a stop call.\<close>

fun stop_answer :: "collaborators \<Rightarrow> event \<Rightarrow> fault + unit" where
  "stop_answer env (BaseStop g) = base_stop env g"
| "stop_answer env (StopScheduler h g) = stop_scheduler env h g"
| "stop_answer env (ExpirationStop tg g) = tg_stop env tg g"
| "stop_answer env (RpcStop r g) = rpc_stop env r g"
| "stop_answer env _ = Inr ()"

text \<open>
  Making the calls of a list in order, up to and including the first that raises: the
  outcome and the calls made.
\<close>

fun until_raise :: "collaborators \<Rightarrow> event list \<Rightarrow> (fault + unit) \<times> event list" where
  "until_raise env [] = (Inr (), [])"
| "until_raise env (e # es) =
     (case stop_answer env e of
        Inl f \<Rightarrow> (Inl f, [e])
      | Inr _ \<Rightarrow> (case until_raise env es of (r, cs) \<Rightarrow> (r, e # cs)))"

text \<open>
  Collaborators of which the RPC server construction and the scheduler stop raise and all
  others return.
\<close>

definition stop_fails :: collaborators where
  "stop_fails = all_fine\<lparr>new_rpc_server := Inl (Fault ''DriverError''),
                         stop_scheduler := (\<lambda>_ _. Inl (Fault ''StopError''))\<rparr>"

section \<open>Properties\<close>

subsection \<open>Sequencing lemmas\<close>

lemma andthen_ext_Inr [simp]:
  "andthen (ext ev (Inr a)) k s = (case k a s of (r, s2, es) \<Rightarrow> (r, s2, ev # es))"
  by (simp add: andthen_def ext_def)

lemma andthen_ext_Inl [simp]:
  "andthen (ext ev (Inl f)) k s = (Inl f, s, [ev])"
  by (simp add: andthen_def ext_def)

lemma andthen_log [simp]:
  "andthen (log_info fmt vals) k s =
     (case k () s of (r, s2, es) \<Rightarrow> (r, s2, LogInfo fmt vals # es))"
  by (simp add: log_info_def)

lemma engine_call_run [simp]:
  "engine_call eng n a k s = (eng (EngineCall n a k), s, [EngineCall n a k])"
  by (simp add: engine_call_def ext_def)

lemma andthen_pure [simp]:
  "andthen (\<lambda>s. (x, s, [])) k s = (case x of Inl f \<Rightarrow> (Inl f, s, []) | Inr a \<Rightarrow> k a s)"
  by (simp add: andthen_def split: sum.splits prod.splits)

lemmas run_defs = outcome_def calls_def after_def

subsection \<open>Start-up\<close>


lemma start_all_return:
  assumes "start_steps_return env s h tg r"
  shows "calls (start env s) = full_start env s r"
    and "outcome (start env s) = notify_started env ''Engine server started.''"
    and "after (start env s) =
           s\<lparr>scheduler := Some h, expiration_policy_tg := Some tg, rpc_server := Some r\<rparr>"
  using assms
  by (auto simp: start_steps_return_def full_start_def start_def run_defs andthen_def
                ext_def ret_def split: if_splits)


lemma start_returns_only_if:
  assumes "outcome (start env s) = Inr ()"
  shows "\<exists>h tg r. start_steps_return env s h tg r"
  using assms
  by (auto simp: start_steps_return_def start_def run_defs andthen_def ext_def ret_def
           split: sum.splits prod.splits if_splits)


lemma all_fine_start:
  "outcome (start all_fine (init None)) = Inr ()"
  "after (start all_fine (init None)) = started"
  "stops_return all_fine started g"
proof -
  have ok: "start_steps_return all_fine (init None) 1 2 3"
    by (simp add: start_steps_return_def all_fine_def init_def)
  show "outcome (start all_fine (init None)) = Inr ()"
    using start_all_return(2) [OF ok] by (simp add: all_fine_def)
  show "after (start all_fine (init None)) = started"
    using start_all_return(3) [OF ok] by (simp add: init_def started_def)
  show "stops_return all_fine started g"
    by (simp add: stops_return_def all_fine_def started_def)
qed



subsection \<open>Shutdown with handles missing\<close>

lemma stop_calls_prefix:
  "prefix (calls (stop env (Some g) s)) (BaseStop g # stops_due s g)"
  by (auto simp: stop_def stops_due_def calls_def andthen_def ext_def ret_def
           split: sum.splits option.splits prod.splits)

lemma stop_all_return:
  assumes "stops_return env s g"
  shows "outcome (stop env (Some g) s) = Inr ()"
    and "calls (stop env (Some g) s) = BaseStop g # stops_due s g"
    and "after (stop env (Some g) s) = s"
  using assms
  by (auto simp: stop_def stops_due_def stops_return_def run_defs andthen_def ext_def ret_def
           split: option.splits)

lemma failed_start_leaves_handles:
  "outcome (start expiration_fails (init None)) = Inl (Fault ''SetupError'')"
  "after (start expiration_fails (init None)) = half_started"
  by (simp_all add: start_def run_defs andthen_def ext_def ret_def expiration_fails_def
        all_fine_def init_def half_started_def)

lemma stop_as_until_raise:
  "outcome (stop env (Some g) s) = fst (until_raise env (BaseStop g # stops_due s g))"
  "calls (stop env (Some g) s) = snd (until_raise env (BaseStop g # stops_due s g))"
  "after (stop env (Some g) s) = s"
  by (auto simp: stop_def stops_due_def run_defs andthen_def ext_def ret_def
           split: sum.splits option.splits prod.splits)

lemma stop_raise_is_last_answer:
  "outcome (stop env (Some g) s) = Inl f \<Longrightarrow>
   calls (stop env (Some g) s) \<noteq> [] \<and> stop_answer env (last (calls (stop env (Some g) s))) = Inl f"
  by (auto simp: stop_def stops_due_def run_defs andthen_def ext_def ret_def
           split: sum.splits option.splits prod.splits)

lemma stop_returns_iff:
  "(outcome (stop env (Some g) s) = Inr ()) = stops_return env s g"
  by (auto simp: stop_def stops_return_def run_defs andthen_def ext_def ret_def
           split: sum.splits option.splits prod.splits)

text \<open>
  C5, as the code has it. \<^verbatim>\<open>stop\<close> makes no stop call for a handle that is
  \<^verbatim>\<open>None\<close> and never raises on account of one: it calls the base class's stop and
  then the stop of each assigned handle, in order, up to and including the first call that
  raises, and leaves the fields as they were. If a call raises, \<^verbatim>\<open>stop\<close> raises that
  exception and makes no further call. \<^verbatim>\<open>stop\<close> returns exactly when every call due
  returns, and then it has made the stop call of every assigned handle and of no other.
  This holds for either value of \<^verbatim>\<open>graceful\<close>.
\<close>

theorem stop_skips_absent_and_propagates:
  "outcome (stop env (Some g) s) = fst (until_raise env (BaseStop g # stops_due s g)) \<and>
   calls (stop env (Some g) s) = snd (until_raise env (BaseStop g # stops_due s g)) \<and>
   after (stop env (Some g) s) = s \<and>
   prefix (calls (stop env (Some g) s)) (BaseStop g # stops_due s g) \<and>
   (outcome (stop env (Some g) s) = Inl f \<longrightarrow>
      calls (stop env (Some g) s) \<noteq> [] \<and>
      stop_answer env (last (calls (stop env (Some g) s))) = Inl f) \<and>
   (outcome (stop env (Some g) s) = Inr ()) = stops_return env s g \<and>
   (outcome (stop env (Some g) s) = Inr () \<longrightarrow>
      calls (stop env (Some g) s) = BaseStop g # stops_due s g)"
  using stop_as_until_raise [of env g s] stop_calls_prefix [of env g s]
    stop_raise_is_last_answer [of env g s f] stop_returns_iff [of env g s]
    stop_all_return(2) [of env s g]
  by blast

theorem stop_skips_absent_and_propagates_witness:
  "outcome (stop all_fine (Some True) (init None)) = Inr () \<and>
   calls (stop all_fine (Some True) (init None)) = [BaseStop True] \<and>
   after (start expiration_fails (init None)) = half_started \<and>
   outcome (stop all_fine (Some True) half_started) = Inr () \<and>
   calls (stop all_fine (Some True) half_started) = [BaseStop True, StopScheduler 1 True]"
proof -
  have h0: "stops_return all_fine (init None) True"
    by (simp add: stops_return_def all_fine_def init_def)
  have h1: "stops_return all_fine half_started True"
    by (simp add: stops_return_def all_fine_def half_started_def)
  from stop_skips_absent_and_propagates [where env = all_fine and g = True and s = "init None"] h0
  have a: "outcome (stop all_fine (Some True) (init None)) = Inr () \<and>
      calls (stop all_fine (Some True) (init None)) = BaseStop True # stops_due (init None) True"
    by blast
  from stop_skips_absent_and_propagates [where env = all_fine and g = True and s = half_started] h1
  have b: "outcome (stop all_fine (Some True) half_started) = Inr () \<and>
      calls (stop all_fine (Some True) half_started) = BaseStop True # stops_due half_started True"
    by blast
  from a b show ?thesis
    by (simp add: failed_start_leaves_handles(2)) (simp add: stops_due_def init_def half_started_def)
qed

text \<open>
  C5, as the claim states it, fails: after a \<^verbatim>\<open>start\<close> that stopped at the construction
  of the RPC server (scheduler and expiration policy assigned, RPC server \<^verbatim>\<open>None\<close>),
  a scheduler stop that raises makes \<^verbatim>\<open>stop(True)\<close> raise, and the stop of the
  expiration policy, whose handle is assigned, is not made.
\<close>

theorem stop_raising_step_counterexample:
  "outcome (start stop_fails (init None)) = Inl (Fault ''DriverError'') \<and>
   scheduler (after (start stop_fails (init None))) = Some 1 \<and>
   expiration_policy_tg (after (start stop_fails (init None))) = Some 2 \<and>
   rpc_server (after (start stop_fails (init None))) = None \<and>
   outcome (stop stop_fails (Some True) (after (start stop_fails (init None)))) =
     Inl (Fault ''StopError'') \<and>
   calls (stop stop_fails (Some True) (after (start stop_fails (init None)))) =
     [BaseStop True, StopScheduler 1 True] \<and>
   ExpirationStop 2 True \<notin>
     set (calls (stop stop_fails (Some True) (after (start stop_fails (init None)))))"
  by (simp add: start_def stop_def run_defs andthen_def ext_def ret_def stop_fails_def
        all_fine_def init_def)


subsection \<open>Shutdown without an argument\<close>

lemma stop_default_arg: "stop env None = stop env (Some False)"
  by (simp add: stop_def)

lemma stop_flags:
  "e \<in> set (calls (stop env garg s)) \<Longrightarrow>
   graceful_of e = Some (case garg of None \<Rightarrow> False | Some g \<Rightarrow> g)"
  by (auto simp: stop_def calls_def andthen_def ext_def ret_def Let_def
           split: sum.splits option.splits prod.splits if_splits)

lemma stop_all_present:
  assumes "scheduler s = Some h" "expiration_policy_tg s = Some tg" "rpc_server s = Some r"
    and "base_stop env g = Inr ()" "stop_scheduler env h g = Inr ()"
    and "tg_stop env tg g = Inr ()"
  shows "calls (stop env (Some g) s) =
           [BaseStop g, StopScheduler h g, ExpirationStop tg g, RpcStop r g]"
    and "outcome (stop env (Some g) s) = rpc_stop env r g"
    and "after (stop env (Some g) s) = s"
  using assms
  by (simp_all add: stop_def calls_def outcome_def after_def andthen_def ext_def ret_def)

text \<open>
  C10. \<^verbatim>\<open>stop()\<close> without an argument is \<^verbatim>\<open>stop(False)\<close>: every stop call it makes
  carries \<^verbatim>\<open>graceful=False\<close>, and on a server whose three handles are assigned (with
  collaborators that return) these are the scheduler stop, the expiration-policy stop and
  the RPC-server stop, each with \<open>False\<close>.
\<close>

theorem stop_without_argument_is_not_graceful:
  "stop env None = stop env (Some False) \<and>
   (\<forall>e \<in> set (calls (stop env None s)). graceful_of e = Some False) \<and>
   (scheduler s = Some h \<and> expiration_policy_tg s = Some tg \<and> rpc_server s = Some r \<and>
    base_stop env False = Inr () \<and> stop_scheduler env h False = Inr () \<and>
    tg_stop env tg False = Inr ()
    \<longrightarrow> calls (stop env None s) =
          [BaseStop False, StopScheduler h False, ExpirationStop tg False, RpcStop r False])"
proof (intro conjI ballI impI)
  show "stop env None = stop env (Some False)"
    by (rule stop_default_arg)
next
  fix e assume "e \<in> set (calls (stop env None s))"
  from stop_flags [OF this] show "graceful_of e = Some False" by simp
next
  assume a: "scheduler s = Some h \<and> expiration_policy_tg s = Some tg \<and> rpc_server s = Some r \<and>
    base_stop env False = Inr () \<and> stop_scheduler env h False = Inr () \<and>
    tg_stop env tg False = Inr ()"
  then show "calls (stop env None s) =
          [BaseStop False, StopScheduler h False, ExpirationStop tg False, RpcStop r False]"
    using stop_all_present(1) [of s h tg r env False] by (simp add: stop_default_arg)
qed

theorem stop_without_argument_is_not_graceful_witness:
  "calls (stop all_fine None started) =
     [BaseStop False, StopScheduler 1 False, ExpirationStop 2 False, RpcStop 3 False]"
proof -
  have h: "scheduler started = Some 1 \<and> expiration_policy_tg started = Some 2 \<and>
      rpc_server started = Some 3 \<and> base_stop all_fine False = Inr () \<and>
      stop_scheduler all_fine 1 False = Inr () \<and> tg_stop all_fine 2 False = Inr ()"
    by (simp add: all_fine_def started_def)
  from stop_without_argument_is_not_graceful [of all_fine started 1 2 3] h
  show ?thesis by blast
qed

subsection \<open>Order of release\<close>

lemma teardown_subseq:
  "subseq (teardown_order (calls (stop env garg s))) [Scheduler, ExpirationSweep, RpcServer]"
  by (auto simp: stop_def teardown_order_def List.map_filter_simps calls_def andthen_def
                 ext_def ret_def Let_def
           split: sum.splits option.splits prod.splits)

lemma teardown_after_start:
  assumes "outcome (start env s0) = Inr ()"
    and "stops_return env (after (start env s0)) g"
  shows "teardown_order (calls (stop env (Some g) (after (start env s0)))) =
           [Scheduler, ExpirationSweep, RpcServer]"
    and "startup_order (calls (start env s0)) = [Store, Scheduler, ExpirationSweep, RpcServer]"
proof -
  from start_returns_only_if [OF assms(1)]
  obtain h tg r where ok: "start_steps_return env s0 h tg r" by blast
  have aft: "after (start env s0) =
      s0\<lparr>scheduler := Some h, expiration_policy_tg := Some tg, rpc_server := Some r\<rparr>"
    by (rule start_all_return(3) [OF ok])
  have "calls (stop env (Some g) (after (start env s0))) =
      BaseStop g # stops_due (after (start env s0)) g"
    by (rule stop_all_return(2) [OF assms(2)])
  then show "teardown_order (calls (stop env (Some g) (after (start env s0)))) =
           [Scheduler, ExpirationSweep, RpcServer]"
    by (simp add: aft stops_due_def teardown_order_def List.map_filter_simps)
  show "startup_order (calls (start env s0)) = [Store, Scheduler, ExpirationSweep, RpcServer]"
    by (simp add: start_all_return(1) [OF ok] full_start_def startup_order_def
          List.map_filter_simps)
qed

text \<open>
  C6, as the code has it. \<^verbatim>\<open>stop\<close> releases the subsystems in the order scheduler,
  expiration policy, RPC server, which is the order in which \<^verbatim>\<open>start\<close> brought them up
  and not its reverse; the store is not released. Every stop call carries the
  \<^verbatim>\<open>graceful\<close> flag \<^verbatim>\<open>stop\<close> was called with.
\<close>

theorem stop_releases_in_startup_order:
  "subseq (teardown_order (calls (stop env garg s))) [Scheduler, ExpirationSweep, RpcServer] \<and>
   (\<forall>e \<in> set (calls (stop env (Some g) s)). graceful_of e = Some g) \<and>
   (outcome (start env s0) = Inr () \<and> stops_return env (after (start env s0)) g \<longrightarrow>
      startup_order (calls (start env s0)) = [Store, Scheduler, ExpirationSweep, RpcServer] \<and>
      teardown_order (calls (stop env (Some g) (after (start env s0)))) =
        [Scheduler, ExpirationSweep, RpcServer])"
proof (intro conjI ballI impI)
  show "subseq (teardown_order (calls (stop env garg s))) [Scheduler, ExpirationSweep, RpcServer]"
    by (rule teardown_subseq)
next
  fix e assume "e \<in> set (calls (stop env (Some g) s))"
  from stop_flags [OF this] show "graceful_of e = Some g" by simp
next
  assume a: "outcome (start env s0) = Inr () \<and> stops_return env (after (start env s0)) g"
  then show "startup_order (calls (start env s0)) = [Store, Scheduler, ExpirationSweep, RpcServer]"
    using teardown_after_start(2) by blast
  from a show "teardown_order (calls (stop env (Some g) (after (start env s0)))) =
        [Scheduler, ExpirationSweep, RpcServer]"
    using teardown_after_start(1) by blast
qed

theorem stop_releases_in_startup_order_witness:
  "startup_order (calls (start all_fine (init None))) =
     [Store, Scheduler, ExpirationSweep, RpcServer] \<and>
   teardown_order (calls (stop all_fine (Some True) (after (start all_fine (init None))))) =
     [Scheduler, ExpirationSweep, RpcServer]"
proof -
  have h: "outcome (start all_fine (init None)) = Inr () \<and>
      stops_return all_fine (after (start all_fine (init None))) True"
    by (simp add: all_fine_start)
  from stop_releases_in_startup_order [of all_fine None "init None" True "init None"] h
  show ?thesis by blast
qed

text \<open>
  C6, as the claim states it, fails: with every collaborator returning, start-up is store,
  scheduler, expiration policy, RPC server, and shutdown is scheduler, expiration policy,
  RPC server, which is not the reverse of start-up, with or without the store.
\<close>

theorem stop_reverse_order_counterexample:
  "teardown_order (calls (stop all_fine (Some True) (after (start all_fine (init None))))) \<noteq>
     rev (startup_order (calls (start all_fine (init None)))) \<and>
   teardown_order (calls (stop all_fine (Some True) (after (start all_fine (init None))))) \<noteq>
     rev (filter (\<lambda>x. x \<noteq> Store) (startup_order (calls (start all_fine (init None))))) \<and>
   teardown_order (calls (stop all_fine (Some True) (after (start all_fine (init None))))) =
     [Scheduler, ExpirationSweep, RpcServer]"
proof -
  have h: "outcome (start all_fine (init None)) = Inr ()"
    "stops_return all_fine (after (start all_fine (init None))) True"
    by (simp_all add: all_fine_start)
  show ?thesis
    by (simp add: teardown_after_start [OF h])
qed

subsection \<open>A failing profiler setup\<close>

lemma profiler_failure_stops_early:
  assumes "setup_profiler s"
    and "profiler_setup env ''mistral-engine'' (conf_engine_host env) = Inl f"
  shows "\<exists>f'. outcome (start env s) = Inl f'"
    and "e \<in> set (calls (start env s)) \<Longrightarrow> start_step e \<le> 5"
    and "rpc_server (after (start env s)) = rpc_server s"
  using assms
  by (auto simp: start_def run_defs andthen_def ext_def ret_def
           split: sum.splits prod.splits)

lemma profiler_failure_exact:
  assumes "setup_profiler s"
    and "profiler_setup env ''mistral-engine'' (conf_engine_host env) = Inl f"
    and "base_start env = Inr ()" "setup_db env = Inr ()"
    and "scheduler_start env = Inr h" "expiration_setup env = Inr tg"
  shows "outcome (start env s) = Inl f"
    and "calls (start env s) =
           [BaseStart, SetupDb, SchedulerStart, ExpirationSetup,
            ProfilerSetup ''mistral-engine'' (conf_engine_host env)]"
  using assms
  by (simp_all add: start_def run_defs andthen_def ext_def ret_def)

text \<open>
  C9, as the code has it. With \<^verbatim>\<open>_setup_profiler\<close> set, an exception raised by the
  profiler setup ends \<^verbatim>\<open>start\<close>: \<^verbatim>\<open>start\<close> raises, no call after the profiler setup is
  made (no RPC server is constructed, nothing is registered, the serve loop is not entered,
  no notification is sent) and the RPC server field stays as it was. When the calls before
  the profiler setup returned, the exception \<^verbatim>\<open>start\<close> raises is the profiler's.
\<close>

theorem profiler_failure_aborts_start:
  "setup_profiler s \<and> profiler_setup env ''mistral-engine'' (conf_engine_host env) = Inl f \<longrightarrow>
     (\<exists>f'. outcome (start env s) = Inl f') \<and>
     (\<forall>e \<in> set (calls (start env s)). start_step e \<le> 5) \<and>
     rpc_server (after (start env s)) = rpc_server s \<and>
     (base_start env = Inr () \<and> setup_db env = Inr () \<and>
      scheduler_start env = Inr h \<and> expiration_setup env = Inr tg \<longrightarrow>
        outcome (start env s) = Inl f \<and>
        calls (start env s) =
          [BaseStart, SetupDb, SchedulerStart, ExpirationSetup,
           ProfilerSetup ''mistral-engine'' (conf_engine_host env)])"
  using profiler_failure_stops_early [of s env f] profiler_failure_exact [of s env f h tg]
  by blast

theorem profiler_failure_aborts_start_witness:
  "outcome (start profiler_fails (init None)) = Inl (Fault ''ProfilerError'') \<and>
   calls (start profiler_fails (init None)) =
     [BaseStart, SetupDb, SchedulerStart, ExpirationSetup,
      ProfilerSetup ''mistral-engine'' ''0.0.0.0'']"
proof -
  have h: "setup_profiler (init None) \<and>
      profiler_setup profiler_fails ''mistral-engine'' (conf_engine_host profiler_fails) =
        Inl (Fault ''ProfilerError'')"
    by (simp add: init_def profiler_fails_def)
  have h2: "base_start profiler_fails = Inr () \<and> setup_db profiler_fails = Inr () \<and>
      scheduler_start profiler_fails = Inr 1 \<and> expiration_setup profiler_fails = Inr 2"
    by (simp add: profiler_fails_def all_fine_def)
  have host: "conf_engine_host profiler_fails = ''0.0.0.0''"
    by (simp add: profiler_fails_def all_fine_def)
  from profiler_failure_aborts_start [of "init None" profiler_fails "Fault ''ProfilerError''" 1 2]
    h h2
  have "outcome (start profiler_fails (init None)) = Inl (Fault ''ProfilerError'') \<and>
      calls (start profiler_fails (init None)) =
        [BaseStart, SetupDb, SchedulerStart, ExpirationSetup,
         ProfilerSetup ''mistral-engine'' (conf_engine_host profiler_fails)]"
    by blast
  then show ?thesis by (simp add: host)
qed

text \<open>
  C9, as the claim states it, fails: when the profiler setup raises, \<^verbatim>\<open>start\<close> raises the
  same exception right after that call; it constructs no RPC server, registers nothing,
  does not enter the serve loop, and the RPC server field is still \<^verbatim>\<open>None\<close>.
\<close>

theorem profiler_failure_counterexample:
  "outcome (start profiler_fails (init None)) = Inl (Fault ''ProfilerError'') \<and>
   NewRpcServer \<notin> set (calls (start profiler_fails (init None))) \<and>
   RegisterEndpoint 3 \<notin> set (calls (start profiler_fails (init None))) \<and>
   Run 3 ''blocking'' \<notin> set (calls (start profiler_fails (init None))) \<and>
   rpc_server (after (start profiler_fails (init None))) = None"
  by (simp add: start_def run_defs andthen_def ext_def ret_def profiler_fails_def all_fine_def
        init_def)


subsection \<open>The RPC methods\<close>

lemma format_names_method:
  "sublist ''start_workflow'' fmt_start_workflow"
  "sublist ''start_action'' fmt_start_action"
  "sublist ''on_action_complete'' fmt_on_action_complete"
  "sublist ''pause_workflow'' fmt_pause_workflow"
  "sublist ''rerun_workflow'' fmt_rerun_workflow"
  "sublist ''resume_workflow'' fmt_resume_workflow"
  "sublist ''stop_workflow'' fmt_stop_workflow"
  "sublist ''rollback_workflow'' fmt_rollback_workflow"
  unfolding fmt_start_workflow_def fmt_start_action_def fmt_on_action_complete_def
    fmt_pause_workflow_def fmt_rerun_workflow_def fmt_resume_workflow_def
    fmt_stop_workflow_def fmt_rollback_workflow_def
  by code_simp+

lemma start_workflow_run:
  "start_workflow eng c wid winp d p s =
     (eng (EngineCall ''start_workflow'' [wid, winp, d] p), s,
      [LogInfo fmt_start_workflow [c, wid, winp, d, PDict p],
       EngineCall ''start_workflow'' [wid, winp, d] p])"
  by (simp add: start_workflow_def)

lemma start_action_run:
  "start_action eng c n inp d p s =
     (eng (EngineCall ''start_action'' [n, inp, d] p), s,
      [LogInfo fmt_start_action [c, n, inp, d, PDict p],
       EngineCall ''start_action'' [n, inp, d] p])"
  by (simp add: start_action_def)

lemma on_action_complete_run:
  "Result_cls rd re = Inr res \<Longrightarrow>
   on_action_complete Result_cls eng c a rd re w s =
     (eng (EngineCall ''on_action_complete'' [a, res, w] []), s,
      [LogInfo fmt_on_action_complete [c, a, res],
       EngineCall ''on_action_complete'' [a, res, w] []])"
  by (simp add: on_action_complete_def)

lemma on_action_complete_raise:
  "Result_cls rd re = Inl f \<Longrightarrow>
   on_action_complete Result_cls eng c a rd re w s = (Inl f, s, [])"
  by (simp add: on_action_complete_def)

lemma pause_workflow_run:
  "pause_workflow eng c x s =
     (eng (EngineCall ''pause_workflow'' [x] []), s,
      [LogInfo fmt_pause_workflow [c, x], EngineCall ''pause_workflow'' [x] []])"
  by (simp add: pause_workflow_def)

lemma rerun_workflow_run:
  "rerun_workflow eng c t ra ea s =
     (eng (EngineCall ''rerun_workflow''
             [t, case ra of None \<Rightarrow> PBool True | Some v \<Rightarrow> v,
                 case ea of None \<Rightarrow> PNone | Some v \<Rightarrow> v] []), s,
      [LogInfo fmt_rerun_workflow [c, t],
       EngineCall ''rerun_workflow''
             [t, case ra of None \<Rightarrow> PBool True | Some v \<Rightarrow> v,
                 case ea of None \<Rightarrow> PNone | Some v \<Rightarrow> v] []])"
  by (simp add: rerun_workflow_def Let_def)

lemma resume_workflow_run:
  "resume_workflow eng c x ea s =
     (eng (EngineCall ''resume_workflow'' [x, case ea of None \<Rightarrow> PNone | Some v \<Rightarrow> v] []), s,
      [LogInfo fmt_resume_workflow [c, x],
       EngineCall ''resume_workflow'' [x, case ea of None \<Rightarrow> PNone | Some v \<Rightarrow> v] []])"
  by (simp add: resume_workflow_def Let_def)

lemma stop_workflow_run:
  "stop_workflow eng c x st ma s =
     (eng (EngineCall ''stop_workflow''
             [x, st, case ma of None \<Rightarrow> PNone | Some v \<Rightarrow> v] []), s,
      [LogInfo fmt_stop_workflow [c, x, st, case ma of None \<Rightarrow> PNone | Some v \<Rightarrow> v],
       EngineCall ''stop_workflow'' [x, st, case ma of None \<Rightarrow> PNone | Some v \<Rightarrow> v] []])"
  by (simp add: stop_workflow_def Let_def)

lemma rollback_workflow_run:
  "rollback_workflow eng c x s =
     (eng (EngineCall ''rollback_workflow'' [x] []), s,
      [LogInfo fmt_rollback_workflow [c, x], EngineCall ''rollback_workflow'' [x] []])"
  by (simp add: rollback_workflow_def)

lemmas method_runs = start_workflow_run start_action_run pause_workflow_run
  rerun_workflow_run resume_workflow_run stop_workflow_run rollback_workflow_run

text \<open>
  C1, as the code has it. Seven of the eight methods pass their arguments (all but the
  request context) to the engine method of the same name unchanged and in the same order,
  with the entries of \<^verbatim>\<open>params\<close> as keyword arguments for \<^verbatim>\<open>start_workflow\<close> and
  \<^verbatim>\<open>start_action\<close>, and with the defaults \<^verbatim>\<open>reset=True\<close>, \<^verbatim>\<open>env=None\<close>,
  \<^verbatim>\<open>message=None\<close> for omitted arguments. \<^verbatim>\<open>on_action_complete\<close> passes the execution
  id and the workflow flag unchanged and, in place of the data and the error, the one
  result object built from them; if building it raises, the engine is not called. In each
  case one engine call is made, what the engine returns or raises is the outcome, and the
  server's fields are untouched.
\<close>

theorem methods_forward_to_engine:
  "forwards (start_workflow eng c wid winp d p s) eng s
     (EngineCall ''start_workflow'' [wid, winp, d] p) \<and>
   forwards (start_action eng c n inp d p s) eng s
     (EngineCall ''start_action'' [n, inp, d] p) \<and>
   (Result_cls rd re = Inr res \<longrightarrow>
      forwards (on_action_complete Result_cls eng c a rd re w s) eng s
        (EngineCall ''on_action_complete'' [a, res, w] [])) \<and>
   (Result_cls rd re = Inl f \<longrightarrow>
      outcome (on_action_complete Result_cls eng c a rd re w s) = Inl f \<and>
      calls (on_action_complete Result_cls eng c a rd re w s) = []) \<and>
   forwards (pause_workflow eng c x s) eng s (EngineCall ''pause_workflow'' [x] []) \<and>
   forwards (rerun_workflow eng c t ra ea s) eng s
     (EngineCall ''rerun_workflow''
        [t, case ra of None \<Rightarrow> PBool True | Some v \<Rightarrow> v,
            case ea of None \<Rightarrow> PNone | Some v \<Rightarrow> v] []) \<and>
   forwards (resume_workflow eng c x ea s) eng s
     (EngineCall ''resume_workflow'' [x, case ea of None \<Rightarrow> PNone | Some v \<Rightarrow> v] []) \<and>
   forwards (stop_workflow eng c x st ma s) eng s
     (EngineCall ''stop_workflow'' [x, st, case ma of None \<Rightarrow> PNone | Some v \<Rightarrow> v] []) \<and>
   forwards (rollback_workflow eng c x s) eng s (EngineCall ''rollback_workflow'' [x] [])"
  by (simp add: forwards_def method_runs on_action_complete_run on_action_complete_raise
        run_defs engine_calls_def)

theorem methods_forward_to_engine_witness:
  "forwards
     (on_action_complete store_result failing_engine (PStr ''ctx'') (PStr ''a1'')
        (PDict [(''x'', PInt 1)]) PNone (PBool False) (init None))
     failing_engine (init None)
     (EngineCall ''on_action_complete''
        [PStr ''a1'', PResult (PDict [(''x'', PInt 1)]) PNone, PBool False] []) \<and>
   failing_engine
     (EngineCall ''on_action_complete''
        [PStr ''a1'', PResult (PDict [(''x'', PInt 1)]) PNone, PBool False] []) =
     Inl (Fault ''EngineFault'')"
proof -
  have h: "store_result (PDict [(''x'', PInt 1)]) PNone =
      Inr (PResult (PDict [(''x'', PInt 1)]) PNone)"
    by (simp add: store_result_def)
  from methods_forward_to_engine [where eng = failing_engine and s = "init None"
      and Result_cls = store_result and rd = "PDict [(''x'', PInt 1)]" and re = PNone
      and res = "PResult (PDict [(''x'', PInt 1)]) PNone"
      and c = "PStr ''ctx''" and a = "PStr ''a1''" and w = "PBool False"] h
  show ?thesis by (simp add: failing_engine_def)
qed

text \<open>
  C1, as the claim states it, fails for \<^verbatim>\<open>on_action_complete\<close>: called with the four
  arguments \<^verbatim>\<open>"a1", {"x": 1}, None, False\<close>, it does not call the engine with these four
  but with three, the second being the result object built from the data and the error.
\<close>

theorem on_action_complete_counterexample:
  "\<not> forwards
       (on_action_complete store_result quiet_engine (PStr ''ctx'') (PStr ''a1'')
          (PDict [(''x'', PInt 1)]) PNone (PBool False) (init None))
       quiet_engine (init None)
       (EngineCall ''on_action_complete''
          [PStr ''a1'', PDict [(''x'', PInt 1)], PNone, PBool False] []) \<and>
   engine_calls
     (calls (on_action_complete store_result quiet_engine (PStr ''ctx'') (PStr ''a1'')
               (PDict [(''x'', PInt 1)]) PNone (PBool False) (init None))) =
     [EngineCall ''on_action_complete''
        [PStr ''a1'', PResult (PDict [(''x'', PInt 1)]) PNone, PBool False] []]"
  by (simp add: forwards_def on_action_complete_def store_result_def run_defs
        engine_calls_def)

text \<open>
  C2, as the code has it. \<^verbatim>\<open>stop_workflow\<close> does not look at the target state: for
  every state, one of \<^verbatim>\<open>SUCCESS\<close> and \<^verbatim>\<open>ERROR\<close> or not, it writes its log record, calls
  the engine's \<^verbatim>\<open>stop_workflow\<close> once with the execution id, that state and the message,
  and its outcome is what the engine returns or raises.
\<close>

theorem stop_workflow_forwards_any_state:
  "calls (stop_workflow eng c x st ma s) =
     [LogInfo fmt_stop_workflow [c, x, st, case ma of None \<Rightarrow> PNone | Some v \<Rightarrow> v],
      EngineCall ''stop_workflow'' [x, st, case ma of None \<Rightarrow> PNone | Some v \<Rightarrow> v] []] \<and>
   outcome (stop_workflow eng c x st ma s) =
     eng (EngineCall ''stop_workflow'' [x, st, case ma of None \<Rightarrow> PNone | Some v \<Rightarrow> v] [])"
  by (simp add: stop_workflow_run run_defs)

text \<open>
  C2, as the claim states it, fails: with the target state \<^verbatim>\<open>"PAUSED"\<close> and an engine
  that accepts every call, \<^verbatim>\<open>stop_workflow\<close> returns the engine's answer, and the engine's
  \<^verbatim>\<open>stop_workflow\<close> has been called with \<^verbatim>\<open>"PAUSED"\<close>.
\<close>

theorem stop_workflow_illegal_state_counterexample:
  "outcome (stop_workflow quiet_engine (PStr ''ctx'') (PStr ''e1'') (PStr ''PAUSED'') None
              (init None)) = Inr PNone \<and>
   engine_calls (calls (stop_workflow quiet_engine (PStr ''ctx'') (PStr ''e1'')
                          (PStr ''PAUSED'') None (init None))) =
     [EngineCall ''stop_workflow'' [PStr ''e1'', PStr ''PAUSED'', PNone] []]"
  by (simp add: stop_workflow_def Let_def run_defs engine_calls_def quiet_engine_def)

text \<open>
  C7, as the code has it. Each method writes exactly one log record, before its one engine
  call, and the record's format string names the method. The values written are the
  request context and: every argument, for \<^verbatim>\<open>start_workflow\<close>, \<^verbatim>\<open>start_action\<close>,
  \<^verbatim>\<open>pause_workflow\<close>, \<^verbatim>\<open>stop_workflow\<close> and \<^verbatim>\<open>rollback_workflow\<close>; the task execution
  id only, for \<^verbatim>\<open>rerun_workflow\<close>; the workflow execution id only, for
  \<^verbatim>\<open>resume_workflow\<close>; the action execution id and the result object built from the data
  and the error, for \<^verbatim>\<open>on_action_complete\<close>.
\<close>

theorem methods_log_then_dispatch:
  "log_then_call (calls (start_workflow eng c wid winp d p s)) =
     Some (fmt_start_workflow, [c, wid, winp, d, PDict p], ''start_workflow'') \<and>
   log_then_call (calls (start_action eng c n inp d p s)) =
     Some (fmt_start_action, [c, n, inp, d, PDict p], ''start_action'') \<and>
   (Result_cls rd re = Inr res \<longrightarrow>
      log_then_call (calls (on_action_complete Result_cls eng c a rd re w s)) =
        Some (fmt_on_action_complete, [c, a, res], ''on_action_complete'')) \<and>
   log_then_call (calls (pause_workflow eng c x s)) =
     Some (fmt_pause_workflow, [c, x], ''pause_workflow'') \<and>
   log_then_call (calls (rerun_workflow eng c t ra ea s)) =
     Some (fmt_rerun_workflow, [c, t], ''rerun_workflow'') \<and>
   log_then_call (calls (resume_workflow eng c x ea s)) =
     Some (fmt_resume_workflow, [c, x], ''resume_workflow'') \<and>
   log_then_call (calls (stop_workflow eng c x st ma s)) =
     Some (fmt_stop_workflow, [c, x, st, case ma of None \<Rightarrow> PNone | Some v \<Rightarrow> v],
           ''stop_workflow'') \<and>
   log_then_call (calls (rollback_workflow eng c x s)) =
     Some (fmt_rollback_workflow, [c, x], ''rollback_workflow'') \<and>
   sublist ''start_workflow'' fmt_start_workflow \<and>
   sublist ''start_action'' fmt_start_action \<and>
   sublist ''on_action_complete'' fmt_on_action_complete \<and>
   sublist ''pause_workflow'' fmt_pause_workflow \<and>
   sublist ''rerun_workflow'' fmt_rerun_workflow \<and>
   sublist ''resume_workflow'' fmt_resume_workflow \<and>
   sublist ''stop_workflow'' fmt_stop_workflow \<and>
   sublist ''rollback_workflow'' fmt_rollback_workflow"
  by (simp add: method_runs on_action_complete_run calls_def format_names_method)

theorem methods_log_then_dispatch_witness:
  "log_then_call
     (calls (on_action_complete store_result quiet_engine (PStr ''ctx'') (PStr ''a1'')
               PNone (PStr ''boom'') (PBool True) (init None))) =
     Some (fmt_on_action_complete, [PStr ''ctx'', PStr ''a1'', PResult PNone (PStr ''boom'')],
           ''on_action_complete'')"
proof -
  have h: "store_result PNone (PStr ''boom'') = Inr (PResult PNone (PStr ''boom''))"
    by (simp add: store_result_def)
  from methods_log_then_dispatch [where eng = quiet_engine and s = "init None"
      and Result_cls = store_result and rd = PNone and re = "PStr ''boom''"
      and res = "PResult PNone (PStr ''boom'')"
      and c = "PStr ''ctx''" and a = "PStr ''a1''" and w = "PBool True"] h
  show ?thesis by blast
qed

text \<open>
  C7, as the claim states it, fails: \<^verbatim>\<open>rerun_workflow\<close> called with \<^verbatim>\<open>reset=False\<close> and
  \<^verbatim>\<open>env={"k": 1}\<close> passes both to the engine and writes neither to the log, and
  \<^verbatim>\<open>on_action_complete\<close> called with the workflow flag \<^verbatim>\<open>True\<close> does not write the
  flag to the log.
\<close>

theorem log_omits_arguments_counterexample:
  "logged (calls (rerun_workflow quiet_engine (PStr ''ctx'') (PStr ''t1'')
                    (Some (PBool False)) (Some (PDict [(''k'', PInt 1)])) (init None))) =
     [PStr ''ctx'', PStr ''t1''] \<and>
   engine_calls (calls (rerun_workflow quiet_engine (PStr ''ctx'') (PStr ''t1'')
                    (Some (PBool False)) (Some (PDict [(''k'', PInt 1)])) (init None))) =
     [EngineCall ''rerun_workflow'' [PStr ''t1'', PBool False, PDict [(''k'', PInt 1)]] []] \<and>
   PBool False \<notin> set (logged (calls (rerun_workflow quiet_engine (PStr ''ctx'') (PStr ''t1'')
                    (Some (PBool False)) (Some (PDict [(''k'', PInt 1)])) (init None)))) \<and>
   PDict [(''k'', PInt 1)] \<notin> set (logged (calls (rerun_workflow quiet_engine (PStr ''ctx'')
                    (PStr ''t1'') (Some (PBool False)) (Some (PDict [(''k'', PInt 1)]))
                    (init None)))) \<and>
   logged (calls (on_action_complete store_result quiet_engine (PStr ''ctx'') (PStr ''a1'')
                    PNone (PStr ''boom'') (PBool True) (init None))) =
     [PStr ''ctx'', PStr ''a1'', PResult PNone (PStr ''boom'')] \<and>
   PBool True \<notin> set (logged (calls (on_action_complete store_result quiet_engine
                    (PStr ''ctx'') (PStr ''a1'') PNone (PStr ''boom'') (PBool True)
                    (init None))))"
  by (simp add: rerun_workflow_def on_action_complete_def store_result_def calls_def
        engine_calls_def Let_def)

subsection \<open>The completion result\<close>

text \<open>
  C8. From a data and an error of which exactly one is populated, the result constructor
  builds, under either policy for the case of both, a result that carries the two as they
  were given, so that exactly the populated one is present in it; its state is
  \<open>SUCCESS\<close> when it is the data and \<open>ERROR\<close> when it is the error; and this result is
  what \<^verbatim>\<open>on_action_complete\<close> hands to the engine.
\<close>

theorem completion_result_reports_exactly_one:
  "(data = PNone) \<noteq> (error = PNone) \<longrightarrow>
     (\<exists>r. Result exclusive data error = Inr r \<and> r = PResult data error \<and>
          data_of r = data \<and> error_of r = error \<and>
          (data_of r = PNone) \<noteq> (error_of r = PNone) \<and>
          completion_state r = (if error = PNone then SUCCESS else ERROR) \<and>
          forwards (on_action_complete (Result exclusive) eng c a data error w s) eng s
            (EngineCall ''on_action_complete'' [a, r, w] []))"
proof
  assume a: "(data = PNone) \<noteq> (error = PNone)"
  then have r: "Result exclusive data error = Inr (PResult data error)"
    by (auto simp: Result_def)
  have f: "forwards (on_action_complete (Result exclusive) eng c a data error w s) eng s
            (EngineCall ''on_action_complete'' [a, PResult data error, w] [])"
    by (simp add: forwards_def on_action_complete_run [of "Result exclusive" data error, OF r] run_defs engine_calls_def)
  from a r f show "\<exists>r. Result exclusive data error = Inr r \<and> r = PResult data error \<and>
          data_of r = data \<and> error_of r = error \<and>
          (data_of r = PNone) \<noteq> (error_of r = PNone) \<and>
          completion_state r = (if error = PNone then SUCCESS else ERROR) \<and>
          forwards (on_action_complete (Result exclusive) eng c a data error w s) eng s
            (EngineCall ''on_action_complete'' [a, r, w] [])"
    by (auto simp: completion_state_def)
qed

theorem completion_result_reports_exactly_one_witness:
  "Result True (PDict [(''x'', PInt 1)]) PNone = Inr (PResult (PDict [(''x'', PInt 1)]) PNone) \<and>
   completion_state (PResult (PDict [(''x'', PInt 1)]) PNone) = SUCCESS \<and>
   Result False PNone (PStr ''boom'') = Inr (PResult PNone (PStr ''boom'')) \<and>
   completion_state (PResult PNone (PStr ''boom'')) = ERROR"
proof -
  have h1: "(PDict [(''x'', PInt 1)] = PNone) \<noteq> (PNone = PNone)" by simp
  have h2: "(PNone = PNone) \<noteq> (PStr ''boom'' = PNone)" by simp
  from completion_result_reports_exactly_one
         [where data = "PDict [(''x'', PInt 1)]" and error = PNone and exclusive = True
            and eng = quiet_engine and c = PNone and a = PNone and w = PNone
            and s = "init None"] h1
  have a: "Result True (PDict [(''x'', PInt 1)]) PNone = Inr (PResult (PDict [(''x'', PInt 1)]) PNone) \<and>
      completion_state (PResult (PDict [(''x'', PInt 1)]) PNone) = SUCCESS"
    by auto
  from completion_result_reports_exactly_one
         [where data = PNone and error = "PStr ''boom''" and exclusive = False
            and eng = quiet_engine and c = PNone and a = PNone and w = PNone
            and s = "init None"] h2
  have b: "Result False PNone (PStr ''boom'') = Inr (PResult PNone (PStr ''boom'')) \<and>
      completion_state (PResult PNone (PStr ''boom'')) = ERROR"
    by auto
  from a b show ?thesis by simp
qed


end
